theory Spec2Isabelle
  imports Main "HOL-Library.Word"
begin

section \<open>Data model of parser.go\<close>

text \<open>
  The package reads a mobile application package (a zip archive) and returns an
  \<open>AppInfo\<close>. Everything outside \<open>parser.go\<close> (the operating system, archive/zip,
  androidbinary, apk, go-plist, iospng, image/png) is a collaborator: its functions are
  the fields of the record \<open>world\<close>, so that every theorem holds for every behaviour of
  the collaborators.
\<close>

type_synonym byte = "8 word"
type_synonym bytes = "byte list"
type_synonym int64 = "64 word"

text \<open>A Go \<^verbatim>\<open>error\<close> value, read only through its message (\<^verbatim>\<open>%v\<close>).\<close>

datatype error = Error string

fun error_string :: "error \<Rightarrow> string" where
  "error_string (Error s) = s"

text \<open>\<^verbatim>\<open>image.Image\<close>: an opaque decoded raster; \<open>None\<close> is the nil interface.\<close>

datatype image = Image "nat list"

text \<open>
  An \<^verbatim>\<open>io.ReadCloser\<close>: the bytes it delivers, and the error (if any) that ends
  the stream in place of EOF.
\<close>

type_synonym reader = "bytes \<times> error option"

record AppInfo =
  Name :: string
  BundleId :: string
  Version :: string
  Build :: string
  Icon :: "image option"
  Size :: int64

record androidManifest =
  Package :: string
  VersionName :: string
  VersionCode :: string

record iosPlist =
  CFBundleName :: string
  CFBundleDisplayName :: string
  CFBundleVersion :: string
  CFBundleShortVersion :: string
  CFBundleIdentifier :: string

text \<open>\<^verbatim>\<open>os.FileInfo\<close>, as far as the code reads it: \<^verbatim>\<open>Name()\<close> and \<^verbatim>\<open>Size()\<close>.\<close>

record FileInfo =
  stat_Name :: string
  stat_Size :: int64

text \<open>\<^verbatim>\<open>*os.File\<close>: the result of \<^verbatim>\<open>Stat()\<close> and the bytes on disk.\<close>

record os_File =
  file_Stat :: "error + FileInfo"
  file_data :: bytes

text \<open>\<^verbatim>\<open>*zip.File\<close>: the entry's name and the result of \<^verbatim>\<open>Open()\<close>.\<close>

record zip_File =
  zip_Name :: string
  zip_Open :: "error + reader"

record ResTableConfig =
  Density :: "16 word"

text \<open>
  \<^verbatim>\<open>*apk.Apk\<close>: \<^verbatim>\<open>Icon\<close> and \<^verbatim>\<open>Label\<close> return a value and an error; the
  code drops both errors and looks at the values only.
\<close>

record apk_Apk =
  pkg_Icon :: "ResTableConfig \<Rightarrow> image option \<times> error option"
  pkg_Label :: "ResTableConfig option \<Rightarrow> string \<times> error option"

text \<open>
  The error of \<^verbatim>\<open>iospng.PngRevertOptimization\<close>: the code compares it with the
  sentinel \<^verbatim>\<open>iospng.ErrImageData\<close> by identity.
\<close>

datatype iospng_error = ErrImageData | OtherError error

text \<open>
  The collaborators. \<open>xml_Decode\<close> and \<open>plist_Decode\<close> give the attributes of the root
  element and the string entries of the top-level dictionary; the struct tags of
  \<open>androidManifest\<close> and \<open>iosPlist\<close> select from them below. \<open>png_Decode\<close> is
  \<^verbatim>\<open>png.Decode\<close>, which returns a nil image with every error.
  \<open>iospng_PngRevertOptimization\<close> returns what it wrote to the buffer \<^verbatim>\<open>w\<close> and its
  error.
\<close>

record world =
  os_Open :: "string \<Rightarrow> error + os_File"
  zip_NewReader :: "os_File \<Rightarrow> int64 \<Rightarrow> error + zip_File list"
  androidbinary_NewXMLFile :: "bytes \<Rightarrow> error + bytes"
  xml_Decode :: "bytes \<Rightarrow> error + (string \<rightharpoonup> string)"
  apk_OpenFile :: "string \<Rightarrow> error + apk_Apk"
  plist_Decode :: "bytes \<Rightarrow> error + (string \<rightharpoonup> string)"
  iospng_PngRevertOptimization :: "reader \<Rightarrow> bytes \<times> iospng_error option"
  png_Decode :: "bytes \<Rightarrow> error + image"

text \<open>
  What a call of \<^verbatim>\<open>NewAppParser\<close> does: it panics (a nil pointer dereference), or
  it returns the pair \<^verbatim>\<open>(*AppInfo, error)\<close>, each of which may be nil.
\<close>

datatype outcome = Panic | Return "AppInfo option" "error option"

section \<open>Library functions the code calls on strings\<close>

definition iosExt :: string where
  "iosExt = ''.ipa''"

definition androidExt :: string where
  "androidExt = ''.apk''"

text \<open>\<^verbatim>\<open>strings.HasPrefix\<close>.\<close>

fun strings_HasPrefix :: "string \<Rightarrow> string \<Rightarrow> bool" where
  "strings_HasPrefix s [] = True"
| "strings_HasPrefix [] (p # ps) = False"
| "strings_HasPrefix (c # cs) (p # ps) = (c = p \<and> strings_HasPrefix cs ps)"

text \<open>\<^verbatim>\<open>strings.Contains\<close>: some suffix of \<open>s\<close> starts with \<open>substr\<close>.\<close>

fun strings_Contains :: "string \<Rightarrow> string \<Rightarrow> bool" where
  "strings_Contains [] substr = strings_HasPrefix [] substr"
| "strings_Contains (c # cs) substr =
     (strings_HasPrefix (c # cs) substr \<or> strings_Contains cs substr)"

text \<open>
  The regular expression \<^verbatim>\<open>Payload/[^/]+/Info\.plist\<close> matched at the start of \<open>s\<close>:
  the literal \<^verbatim>\<open>Payload/\<close>, then a non-empty run of bytes other than \<^verbatim>\<open>/\<close>, which
  must be followed by the literal \<^verbatim>\<open>/Info.plist\<close> and so is the longest such run.
\<close>

definition not_slash :: "char \<Rightarrow> bool" where
  "not_slash c = (c \<noteq> CHR ''/'')"

definition reInfoPlist_match_here :: "string \<Rightarrow> bool" where
  "reInfoPlist_match_here s =
     (strings_HasPrefix s ''Payload/'' \<and>
      takeWhile not_slash (drop 8 s) \<noteq> [] \<and>
      strings_HasPrefix (dropWhile not_slash (drop 8 s)) ''/Info.plist'')"

text \<open>
  \<^verbatim>\<open>reInfoPlist.MatchString\<close>: the expression has no anchors, so it is tried at every
  position of the name.
\<close>

fun reInfoPlist_MatchString :: "string \<Rightarrow> bool" where
  "reInfoPlist_MatchString [] = reInfoPlist_match_here []"
| "reInfoPlist_MatchString (c # cs) =
     (reInfoPlist_match_here (c # cs) \<or> reInfoPlist_MatchString cs)"

text \<open>
  \<^verbatim>\<open>filepath.Ext\<close> (Unix): walk back from the end of the path up to the last
  separator; the extension starts at the first dot met. \<open>Ext_loop\<close> takes the path
  reversed and the suffix already walked over.
\<close>

fun Ext_loop :: "string \<Rightarrow> string \<Rightarrow> string" where
  "Ext_loop [] suffix = []"
| "Ext_loop (c # cs) suffix =
     (if c = CHR ''/'' then []
      else if c = CHR ''.'' then c # suffix
      else Ext_loop cs (c # suffix))"

definition filepath_Ext :: "string \<Rightarrow> string" where
  "filepath_Ext path = Ext_loop (rev path) []"

text \<open>\<^verbatim>\<open>ioutil.ReadAll\<close>: the bytes of the stream, or the error that ended it.\<close>

fun ioutil_ReadAll :: "reader \<Rightarrow> error + bytes" where
  "ioutil_ReadAll (buf, None) = Inr buf"
| "ioutil_ReadAll (buf, Some err) = Inl err"

section \<open>The scanner loop of NewAppParser\<close>

text \<open>
  The \<^verbatim>\<open>switch\<close> in the loop over \<^verbatim>\<open>reader.File\<close>: the first case that holds
  for the entry's name decides which variable the entry is assigned to.
\<close>

datatype entry_kind = IsXmlFile | IsPlistFile | IsIosIconFile | IsOther

definition classify :: "string \<Rightarrow> entry_kind" where
  "classify n =
     (if n = ''AndroidManifest.xml'' then IsXmlFile
      else if reInfoPlist_MatchString n then IsPlistFile
      else if strings_Contains n ''AppIcon60x60'' then IsIosIconFile
      else IsOther)"

record scanned =
  xmlFile :: "zip_File option"
  plistFile :: "zip_File option"
  iosIconFile :: "zip_File option"

definition scan_step :: "scanned \<Rightarrow> zip_File \<Rightarrow> scanned" where
  "scan_step s f =
     (case classify (zip_Name f) of
        IsXmlFile \<Rightarrow> s\<lparr>xmlFile := Some f\<rparr>
      | IsPlistFile \<Rightarrow> s\<lparr>plistFile := Some f\<rparr>
      | IsIosIconFile \<Rightarrow> s\<lparr>iosIconFile := Some f\<rparr>
      | IsOther \<Rightarrow> s)"

fun scan_loop :: "scanned \<Rightarrow> zip_File list \<Rightarrow> scanned" where
  "scan_loop s [] = s"
| "scan_loop s (f # fs) = scan_loop (scan_step s f) fs"

definition scan :: "zip_File list \<Rightarrow> scanned" where
  "scan fs = scan_loop \<lparr>xmlFile = None, plistFile = None, iosIconFile = None\<rparr> fs"

section \<open>The Android path\<close>

text \<open>
  Decoding into a zeroed struct: a field whose tagged key is absent keeps the empty
  string.
\<close>

definition attr :: "(string \<rightharpoonup> string) \<Rightarrow> string \<Rightarrow> string" where
  "attr m k = (case m k of None \<Rightarrow> [] | Some v \<Rightarrow> v)"

text \<open>
  The parse functions below return \<^verbatim>\<open>(nil, err)\<close> or \<^verbatim>\<open>(value, nil)\<close> and nothing
  else: \<open>Inl err\<close> and \<open>Inr value\<close>.
\<close>

definition parseAndroidManifest :: "world \<Rightarrow> zip_File \<Rightarrow> error + androidManifest" where
  "parseAndroidManifest w xf =
     (case zip_Open xf of
        Inl err \<Rightarrow> Inl err
      | Inr rc \<Rightarrow>
          (case ioutil_ReadAll rc of
             Inl err \<Rightarrow> Inl err
           | Inr buf \<Rightarrow>
               (case androidbinary_NewXMLFile w buf of
                  Inl err \<Rightarrow> Inl err
                | Inr xmlContent \<Rightarrow>
                    (case xml_Decode w xmlContent of
                       Inl err \<Rightarrow> Inl err
                     | Inr attrs \<Rightarrow>
                         Inr \<lparr>Package = attr attrs ''package'',
                              VersionName = attr attrs ''versionName'',
                              VersionCode = attr attrs ''versionCode''\<rparr>))))"

text \<open>\<^verbatim>\<open>new(AppInfo)\<close>: every field has its zero value.\<close>

definition new_AppInfo :: AppInfo where
  "new_AppInfo = \<lparr>Name = [], BundleId = [], Version = [], Build = [], Icon = None, Size = 0\<rparr>"

definition parseApkFile :: "world \<Rightarrow> zip_File option \<Rightarrow> error + AppInfo" where
  "parseApkFile w xf_opt =
     (case xf_opt of
        None \<Rightarrow> Inl (Error ''AndroidManifest.xml is not found'')
      | Some xf \<Rightarrow>
          (case parseAndroidManifest w xf of
             Inl err \<Rightarrow> Inl err
           | Inr manifest \<Rightarrow>
               Inr (new_AppInfo\<lparr>BundleId := Package manifest,
                                Version := VersionName manifest,
                                Build := VersionCode manifest\<rparr>)))"

text \<open>
  \<open>parseApkIconAndLabel\<close> keeps the shape of the Go results \<^verbatim>\<open>(icon, label, err)\<close>,
  because its caller uses all three whatever \<^verbatim>\<open>err\<close> is.
\<close>

definition parseApkIconAndLabel ::
  "world \<Rightarrow> string \<Rightarrow> image option \<times> string \<times> error option" where
  "parseApkIconAndLabel w name =
     (case apk_OpenFile w name of
        Inl err \<Rightarrow> (None, [], Some err)
      | Inr pkg \<Rightarrow>
          (case fst (pkg_Icon pkg \<lparr>Density = 720\<rparr>) of
             None \<Rightarrow> (None, [], Some (Error ''Icon is not found''))
           | Some icon \<Rightarrow> (Some icon, fst (pkg_Label pkg None), None)))"

section \<open>The iOS path\<close>

definition decode_iosPlist :: "(string \<rightharpoonup> string) \<Rightarrow> iosPlist" where
  "decode_iosPlist d =
     \<lparr>CFBundleName = attr d ''CFBundleName'',
      CFBundleDisplayName = attr d ''CFBundleDisplayName'',
      CFBundleVersion = attr d ''CFBundleVersion'',
      CFBundleShortVersion = attr d ''CFBundleShortVersionString'',
      CFBundleIdentifier = attr d ''CFBundleIdentifier''\<rparr>"

definition parseIpaFile :: "world \<Rightarrow> zip_File option \<Rightarrow> error + AppInfo" where
  "parseIpaFile w pf_opt =
     (case pf_opt of
        None \<Rightarrow> Inl (Error ''info.plist is not found'')
      | Some pf \<Rightarrow>
          (case zip_Open pf of
             Inl err \<Rightarrow> Inl (Error (''failed opening plist file: '' @ error_string err))
           | Inr rc \<Rightarrow>
               (case ioutil_ReadAll rc of
                  Inl err \<Rightarrow> Inl (Error (''failed reading plist data: '' @ error_string err))
                | Inr buf \<Rightarrow>
                    (case plist_Decode w buf of
                       Inl err \<Rightarrow>
                         Inl (Error (''failed decoding plist data: '' @ error_string err))
                     | Inr d \<Rightarrow>
                         (let p = decode_iosPlist d;
                              info = new_AppInfo;
                              info = (if CFBundleDisplayName p = []
                                      then info\<lparr>Name := CFBundleName p\<rparr>
                                      else info\<lparr>Name := CFBundleDisplayName p\<rparr>)
                          in Inr (info\<lparr>BundleId := CFBundleIdentifier p,
                                        Version := CFBundleShortVersion p,
                                        Build := CFBundleVersion p\<rparr>))))))"

text \<open>
  \<open>parseIpaIcon\<close> returns \<^verbatim>\<open>(nil, err)\<close> or \<^verbatim>\<open>(image, nil)\<close>, where the image
  itself may be nil: in the \<^verbatim>\<open>ErrImageData\<close> branch the error of \<^verbatim>\<open>png.Decode\<close>
  is dropped and the image it returned goes out with a nil error.
\<close>

definition parseIpaIcon :: "world \<Rightarrow> zip_File option \<Rightarrow> error + image option" where
  "parseIpaIcon w if_opt =
     (case if_opt of
        None \<Rightarrow> Inl (Error ''Icon is not found'')
      | Some iconFile \<Rightarrow>
          (case zip_Open iconFile of
             Inl err \<Rightarrow> Inl (Error (''Failed opening icon file: '' @ error_string err))
           | Inr rc \<Rightarrow>
               (case iospng_PngRevertOptimization w rc of
                  (buf, Some ErrImageData) \<Rightarrow>
                    (case png_Decode w buf of
                       Inl _ \<Rightarrow> Inr None
                     | Inr img \<Rightarrow> Inr (Some img))
                | (buf, Some (OtherError err)) \<Rightarrow>
                    Inl (Error (''failed png revert optimization: '' @ error_string err))
                | (buf, None) \<Rightarrow>
                    (case png_Decode w buf of
                       Inl err \<Rightarrow> Inl (Error (''failed decoding png: '' @ error_string err))
                     | Inr img \<Rightarrow> Inr (Some img)))))"

section \<open>NewAppParser\<close>

text \<open>
  The Android branch calls \<open>parseApkFile\<close> and \<open>parseApkIconAndLabel\<close> one after the
  other and overwrites the first error with the second. It then assigns
  \<^verbatim>\<open>info.Name\<close>: when \<open>parseApkFile\<close> returned a nil \<^verbatim>\<open>info\<close>, that is a nil
  pointer dereference. Otherwise it returns \<^verbatim>\<open>info\<close> together with the error of
  \<open>parseApkIconAndLabel\<close>.
\<close>

definition NewAppParser_apk :: "world \<Rightarrow> string \<Rightarrow> FileInfo \<Rightarrow> scanned \<Rightarrow> outcome" where
  "NewAppParser_apk w name stat s =
     (let r = parseApkFile w (xmlFile s);
          (icon, label, err) = parseApkIconAndLabel w name
      in case r of
           Inl _ \<Rightarrow> Panic
         | Inr info \<Rightarrow>
             Return (Some (info\<lparr>Name := label, Icon := icon, Size := stat_Size stat\<rparr>)) err)"

definition NewAppParser_ipa :: "world \<Rightarrow> FileInfo \<Rightarrow> scanned \<Rightarrow> outcome" where
  "NewAppParser_ipa w stat s =
     (case parseIpaFile w (plistFile s) of
        Inl err \<Rightarrow> Return None (Some err)
      | Inr info \<Rightarrow>
          (case parseIpaIcon w (iosIconFile s) of
             Inl err \<Rightarrow>
               Return None (Some (Error (''failed parsing ipa icon file: '' @ error_string err)))
           | Inr icon \<Rightarrow>
               Return (Some (info\<lparr>Icon := icon, Size := stat_Size stat\<rparr>)) None))"

definition NewAppParser :: "world \<Rightarrow> string \<Rightarrow> outcome" where
  "NewAppParser w name =
     (case os_Open w name of
        Inl err \<Rightarrow>
          Return None (Some (Error (''failed opening file: '' @ name @ '': '' @ error_string err)))
      | Inr file \<Rightarrow>
          (case file_Stat file of
             Inl err \<Rightarrow>
               Return None (Some (Error (''failed getting file stat: '' @ error_string err)))
           | Inr stat \<Rightarrow>
               (case zip_NewReader w file (stat_Size stat) of
                  Inl err \<Rightarrow>
                    Return None (Some (Error (''failed reading zip file: '' @ error_string err)))
                | Inr files \<Rightarrow>
                    (let s = scan files; ext = filepath_Ext (stat_Name stat)
                     in if ext = androidExt then NewAppParser_apk w name stat s
                        else if ext = iosExt then NewAppParser_ipa w stat s
                        else Return None (Some (Error ''unknown platform''))))))"

section \<open>A sample file system and sample collaborators\<close>

text \<open>
  Eight files: a complete \<^verbatim>\<open>.apk\<close>, an \<^verbatim>\<open>.apk\<close> without manifest, an \<^verbatim>\<open>.apk\<close>
  whose resource table has no icon, a complete \<^verbatim>\<open>.ipa\<close>, two \<^verbatim>\<open>.ipa\<close> whose icon
  makes the reversal report \<^verbatim>\<open>ErrImageData\<close> (one leaves bytes that are no PNG, the
  other a PNG), a text file that is no archive, and an archive with another extension.
\<close>

definition demo_manifest :: zip_File where
  "demo_manifest = \<lparr>zip_Name = ''AndroidManifest.xml'', zip_Open = Inr ([3, 0, 8, 0], None)\<rparr>"

definition stale_manifest :: zip_File where
  "stale_manifest = \<lparr>zip_Name = ''AndroidManifest.xml'', zip_Open = Inr ([0], None)\<rparr>"

definition demo_resources :: zip_File where
  "demo_resources = \<lparr>zip_Name = ''resources.arsc'', zip_Open = Inr ([2, 0, 12, 0], None)\<rparr>"

definition demo_plist :: zip_File where
  "demo_plist = \<lparr>zip_Name = ''Payload/Demo.app/Info.plist'', zip_Open = Inr ([98, 112], None)\<rparr>"

definition helper_plist :: zip_File where
  "helper_plist = \<lparr>zip_Name = ''Payload/Helper.app/Info.plist'', zip_Open = Inr ([98, 113], None)\<rparr>"

definition demo_icon :: zip_File where
  "demo_icon =
     \<lparr>zip_Name = ''Payload/Demo.app/AppIcon60x60@2x.png'', zip_Open = Inr ([137, 1], None)\<rparr>"

definition demo_icon3x :: zip_File where
  "demo_icon3x =
     \<lparr>zip_Name = ''Payload/Demo.app/AppIcon60x60@3x.png'', zip_Open = Inr ([137, 1], None)\<rparr>"

definition odd_icon :: zip_File where
  "odd_icon =
     \<lparr>zip_Name = ''Payload/Demo.app/AppIcon60x60@2x.png'', zip_Open = Inr ([137, 9], None)\<rparr>"

definition quirk_icon :: zip_File where
  "quirk_icon =
     \<lparr>zip_Name = ''Payload/Demo.app/AppIcon60x60@2x.png'', zip_Open = Inr ([137, 5], None)\<rparr>"

definition demo_entries :: "bytes \<Rightarrow> error + zip_File list" where
  "demo_entries d =
     (if d = [1] then Inr [stale_manifest, demo_resources, demo_manifest]
      else if d = [2] then Inr [demo_resources]
      else if d = [3] then Inr [demo_manifest, demo_resources]
      else if d = [4] then Inr [demo_plist, demo_icon]
      else if d = [5] then Inr [demo_plist, odd_icon]
      else if d = [6] then Inr [demo_resources]
      else if d = [8] then Inr [demo_plist, quirk_icon]
      else Inl (Error ''zip: not a valid zip file''))"

definition demo_disk :: "string \<Rightarrow> (bytes \<times> int64) option" where
  "demo_disk n =
     (if n = ''demo.apk'' then Some ([1], 4096)
      else if n = ''bare.apk'' then Some ([2], 512)
      else if n = ''noicon.apk'' then Some ([3], 2048)
      else if n = ''demo.ipa'' then Some ([4], 8192)
      else if n = ''odd.ipa'' then Some ([5], 8000)
      else if n = ''bundle.zip'' then Some ([6], 300)
      else if n = ''notes.txt'' then Some ([7], 11)
      else if n = ''quirk.ipa'' then Some ([8], 8100)
      else None)"

definition demo_pkg :: "bool \<Rightarrow> apk_Apk" where
  "demo_pkg has_icon =
     \<lparr>pkg_Icon = (\<lambda>c. if has_icon \<and> Density c = 720 then (Some (Image [7, 2, 0]), None)
                       else (None, Some (Error ''resource not found''))),
      pkg_Label = (\<lambda>c. (''Example'', None))\<rparr>"

definition demo_world :: world where
  "demo_world =
     \<lparr>os_Open = (\<lambda>n. case demo_disk n of
                        None \<Rightarrow> Inl (Error ''no such file or directory'')
                      | Some (d, sz) \<Rightarrow>
                          Inr \<lparr>file_Stat = Inr \<lparr>stat_Name = n, stat_Size = sz\<rparr>, file_data = d\<rparr>),
      zip_NewReader = (\<lambda>f sz. demo_entries (file_data f)),
      androidbinary_NewXMLFile =
        (\<lambda>b. if b = [3, 0, 8, 0] then Inr [60, 109] else Inl (Error ''invalid chunk header'')),
      xml_Decode =
        (\<lambda>b. if b = [60, 109]
              then Inr [''package'' \<mapsto> ''com.example.app'', ''versionName'' \<mapsto> ''1.2.3'',
                        ''versionCode'' \<mapsto> ''7'']
              else Inl (Error ''EOF'')),
      apk_OpenFile =
        (\<lambda>n. if n = ''demo.apk'' then Inr (demo_pkg True)
              else if n = ''noicon.apk'' then Inr (demo_pkg False)
              else Inl (Error ''no resources.arsc'')),
      plist_Decode =
        (\<lambda>b. if b = [98, 112]
              then Inr [''CFBundleName'' \<mapsto> ''Example'',
                        ''CFBundleIdentifier'' \<mapsto> ''com.example.app'',
                        ''CFBundleShortVersionString'' \<mapsto> ''1.2.3'',
                        ''CFBundleVersion'' \<mapsto> ''7'']
              else Inl (Error ''plist: invalid data'')),
      iospng_PngRevertOptimization =
        (\<lambda>rc. if fst rc = [137, 1] then ([137, 80], None)
               else if fst rc = [137, 9] then ([137, 0], Some ErrImageData)
               else if fst rc = [137, 5] then ([137, 80], Some ErrImageData)
               else ([], Some (OtherError (Error ''Not a Png'')))),
      png_Decode =
        (\<lambda>b. if b = [137, 80] then Inr (Image [6, 0, 6, 0])
              else Inl (Error ''png: invalid format: not a PNG file''))\<rparr>"

section \<open>What the string functions decide\<close>

lemma strings_HasPrefix_iff: "strings_HasPrefix s p \<longleftrightarrow> (\<exists>t. s = p @ t)"
  by (induction s p rule: strings_HasPrefix.induct) auto

lemma strings_Contains_iff:
  "strings_Contains s sub \<longleftrightarrow> (\<exists>pre post. s = pre @ sub @ post)"
proof (induction s)
  case Nil
  show ?case by (auto simp: strings_HasPrefix_iff)
next
  case (Cons c cs)
  show ?case
  proof
    assume "strings_Contains (c # cs) sub"
    then consider "strings_HasPrefix (c # cs) sub" | "strings_Contains cs sub" by auto
    then show "\<exists>pre post. c # cs = pre @ sub @ post"
    proof cases
      case 1
      then obtain t where "c # cs = sub @ t" by (auto simp: strings_HasPrefix_iff)
      then have "c # cs = [] @ sub @ t" by simp
      then show ?thesis by blast
    next
      case 2
      then obtain pre post where "cs = pre @ sub @ post" using Cons.IH by blast
      then have "c # cs = (c # pre) @ sub @ post" by simp
      then show ?thesis by blast
    qed
  next
    assume "\<exists>pre post. c # cs = pre @ sub @ post"
    then obtain pre post where eq: "c # cs = pre @ sub @ post" by blast
    show "strings_Contains (c # cs) sub"
    proof (cases pre)
      case Nil
      with eq have "strings_HasPrefix (c # cs) sub" by (auto simp: strings_HasPrefix_iff)
      then show ?thesis by simp
    next
      case (Cons d ds)
      with eq have "cs = ds @ sub @ post" by simp
      then have "strings_Contains cs sub" using Cons.IH by blast
      then show ?thesis by simp
    qed
  qed
qed

lemma takeWhile_not_slash_segment:
  assumes "CHR ''/'' \<notin> set seg"
  shows "takeWhile not_slash (seg @ CHR ''/'' # r) = seg"
    and "dropWhile not_slash (seg @ CHR ''/'' # r) = CHR ''/'' # r"
proof -
  have all: "\<And>x. x \<in> set seg \<Longrightarrow> not_slash x"
    using assms by (auto simp: not_slash_def)
  show "takeWhile not_slash (seg @ CHR ''/'' # r) = seg"
    using all by (simp add: takeWhile_append2 not_slash_def)
  show "dropWhile not_slash (seg @ CHR ''/'' # r) = CHR ''/'' # r"
    using all by (simp add: dropWhile_append2 not_slash_def)
qed

lemma reInfoPlist_match_here_iff:
  "reInfoPlist_match_here s \<longleftrightarrow>
     (\<exists>seg post. s = ''Payload/'' @ seg @ ''/Info.plist'' @ post \<and> seg \<noteq> [] \<and>
                 CHR ''/'' \<notin> set seg)"
proof
  assume m: "reInfoPlist_match_here s"
  then obtain t where s: "s = ''Payload/'' @ t"
    by (auto simp: reInfoPlist_match_here_def strings_HasPrefix_iff)
  then have d: "drop 8 s = t" by simp
  from m d have ne: "takeWhile not_slash t \<noteq> []"
    by (simp add: reInfoPlist_match_here_def)
  from m d obtain post where dw: "dropWhile not_slash t = ''/Info.plist'' @ post"
    by (auto simp: reInfoPlist_match_here_def strings_HasPrefix_iff)
  have "t = takeWhile not_slash t @ dropWhile not_slash t" by simp
  with dw have t: "t = takeWhile not_slash t @ ''/Info.plist'' @ post" by simp
  have "CHR ''/'' \<notin> set (takeWhile not_slash t)"
    using set_takeWhileD [of "CHR ''/''" not_slash t] by (auto simp: not_slash_def)
  with s t ne show "\<exists>seg post. s = ''Payload/'' @ seg @ ''/Info.plist'' @ post \<and> seg \<noteq> [] \<and>
                 CHR ''/'' \<notin> set seg"
    by metis
next
  assume "\<exists>seg post. s = ''Payload/'' @ seg @ ''/Info.plist'' @ post \<and> seg \<noteq> [] \<and>
                 CHR ''/'' \<notin> set seg"
  then obtain seg post where s: "s = ''Payload/'' @ seg @ ''/Info.plist'' @ post"
    and ne: "seg \<noteq> []" and ns: "CHR ''/'' \<notin> set seg" by blast
  from s have d: "drop 8 s = seg @ CHR ''/'' # (''Info.plist'' @ post)" by simp
  from s have p: "strings_HasPrefix s ''Payload/''" by (simp add: strings_HasPrefix_iff)
  show "reInfoPlist_match_here s"
    unfolding reInfoPlist_match_here_def d
    using p ne takeWhile_not_slash_segment [OF ns, of "''Info.plist'' @ post"]
    by (simp add: strings_HasPrefix_iff)
qed

lemma reInfoPlist_MatchString_suffix:
  "reInfoPlist_MatchString s \<longleftrightarrow> (\<exists>pre t. s = pre @ t \<and> reInfoPlist_match_here t)"
proof (induction s)
  case Nil
  show ?case by auto
next
  case (Cons c cs)
  show ?case
  proof
    assume "reInfoPlist_MatchString (c # cs)"
    then consider "reInfoPlist_match_here (c # cs)" | "reInfoPlist_MatchString cs" by auto
    then show "\<exists>pre t. c # cs = pre @ t \<and> reInfoPlist_match_here t"
    proof cases
      case 1
      then have "c # cs = [] @ (c # cs) \<and> reInfoPlist_match_here (c # cs)" by simp
      then show ?thesis by blast
    next
      case 2
      then obtain pre t where "cs = pre @ t" "reInfoPlist_match_here t" using Cons.IH by blast
      then have "c # cs = (c # pre) @ t \<and> reInfoPlist_match_here t" by simp
      then show ?thesis by blast
    qed
  next
    assume "\<exists>pre t. c # cs = pre @ t \<and> reInfoPlist_match_here t"
    then obtain pre t where eq: "c # cs = pre @ t" and m: "reInfoPlist_match_here t" by blast
    show "reInfoPlist_MatchString (c # cs)"
    proof (cases pre)
      case Nil
      with eq have "t = c # cs" by simp
      with m have "reInfoPlist_match_here (c # cs)" by simp
      then show ?thesis by simp
    next
      case (Cons d ds)
      with eq have "cs = ds @ t" by simp
      with m have "reInfoPlist_MatchString cs" using Cons.IH by blast
      then show ?thesis by simp
    qed
  qed
qed

lemma reInfoPlist_MatchString_iff:
  "reInfoPlist_MatchString s \<longleftrightarrow>
     (\<exists>pre seg post. s = pre @ ''Payload/'' @ seg @ ''/Info.plist'' @ post \<and> seg \<noteq> [] \<and>
                     CHR ''/'' \<notin> set seg)"
  unfolding reInfoPlist_MatchString_suffix reInfoPlist_match_here_iff by blast

section \<open>What the scanner loop selects\<close>

lemma scan_loop_append: "scan_loop s (xs @ ys) = scan_loop (scan_loop s xs) ys"
  by (induction xs arbitrary: s) auto

lemma scan_loop_keeps_xmlFile:
  "\<forall>g\<in>set fs. classify (zip_Name g) \<noteq> IsXmlFile \<Longrightarrow> xmlFile (scan_loop s fs) = xmlFile s"
  by (induction fs arbitrary: s) (auto simp: scan_step_def split: entry_kind.splits)

lemma scan_loop_keeps_plistFile:
  "\<forall>g\<in>set fs. classify (zip_Name g) \<noteq> IsPlistFile \<Longrightarrow> plistFile (scan_loop s fs) = plistFile s"
  by (induction fs arbitrary: s) (auto simp: scan_step_def split: entry_kind.splits)

lemma scan_loop_keeps_iosIconFile:
  "\<forall>g\<in>set fs. classify (zip_Name g) \<noteq> IsIosIconFile \<Longrightarrow>
     iosIconFile (scan_loop s fs) = iosIconFile s"
  by (induction fs arbitrary: s) (auto simp: scan_step_def split: entry_kind.splits)

lemma scan_split:
  "scan (pre @ f # post) =
     scan_loop (scan_step (scan_loop \<lparr>xmlFile = None, plistFile = None, iosIconFile = None\<rparr> pre) f) post"
  by (simp add: scan_def scan_loop_append)

lemma scan_last_xmlFile:
  assumes "classify (zip_Name f) = IsXmlFile"
    and "\<forall>g\<in>set post. classify (zip_Name g) \<noteq> IsXmlFile"
  shows "xmlFile (scan (pre @ f # post)) = Some f"
  using assms by (simp add: scan_split scan_loop_keeps_xmlFile scan_step_def)

lemma scan_last_plistFile:
  assumes "classify (zip_Name f) = IsPlistFile"
    and "\<forall>g\<in>set post. classify (zip_Name g) \<noteq> IsPlistFile"
  shows "plistFile (scan (pre @ f # post)) = Some f"
  using assms by (simp add: scan_split scan_loop_keeps_plistFile scan_step_def)

lemma scan_last_iosIconFile:
  assumes "classify (zip_Name f) = IsIosIconFile"
    and "\<forall>g\<in>set post. classify (zip_Name g) \<noteq> IsIosIconFile"
  shows "iosIconFile (scan (pre @ f # post)) = Some f"
  using assms by (simp add: scan_split scan_loop_keeps_iosIconFile scan_step_def)

lemma scan_no_match:
  "\<forall>g\<in>set fs. classify (zip_Name g) \<noteq> IsXmlFile \<Longrightarrow> xmlFile (scan fs) = None"
  "\<forall>g\<in>set fs. classify (zip_Name g) \<noteq> IsPlistFile \<Longrightarrow> plistFile (scan fs) = None"
  "\<forall>g\<in>set fs. classify (zip_Name g) \<noteq> IsIosIconFile \<Longrightarrow> iosIconFile (scan fs) = None"
  by (simp_all add: scan_def scan_loop_keeps_xmlFile scan_loop_keeps_plistFile
      scan_loop_keeps_iosIconFile)

lemma classify_IsXmlFile_iff: "classify n = IsXmlFile \<longleftrightarrow> n = ''AndroidManifest.xml''"
  by (simp add: classify_def)

lemma classify_IsPlistFile_iff: "classify n = IsPlistFile \<longleftrightarrow> reInfoPlist_MatchString n"
proof -
  have "\<not> reInfoPlist_MatchString ''AndroidManifest.xml''"
    by (simp add: reInfoPlist_match_here_def)
  then show ?thesis by (auto simp: classify_def)
qed

lemma classify_IsIosIconFile_iff:
  "classify n = IsIosIconFile \<longleftrightarrow>
     strings_Contains n ''AppIcon60x60'' \<and> \<not> reInfoPlist_MatchString n"
proof -
  have "\<not> strings_Contains ''AndroidManifest.xml'' ''AppIcon60x60''"
    by simp
  then show ?thesis by (auto simp: classify_def)
qed

lemmas demo_files =
  demo_manifest_def stale_manifest_def demo_resources_def demo_plist_def helper_plist_def
  demo_icon_def demo_icon3x_def odd_icon_def quirk_icon_def

lemmas demo_simps =
  demo_world_def demo_disk_def demo_entries_def demo_pkg_def demo_files

lemmas scan_simps =
  scan_def scan_step_def classify_def reInfoPlist_match_here_def not_slash_def

lemmas parser_simps =
  NewAppParser_def NewAppParser_apk_def NewAppParser_ipa_def parseApkFile_def
  parseAndroidManifest_def parseApkIconAndLabel_def parseIpaFile_def parseIpaIcon_def
  decode_iosPlist_def attr_def new_AppInfo_def filepath_Ext_def androidExt_def iosExt_def

section \<open>The Android path without a manifest\<close>

lemma NewAppParser_apk_nil_info:
  "parseApkFile w (xmlFile s) = Inl err \<Longrightarrow> NewAppParser_apk w name stat s = Panic"
  by (simp add: NewAppParser_apk_def split: prod.splits)

lemma apk_without_manifest_panics:
  assumes "os_Open w name = Inr file" and "file_Stat file = Inr stat"
    and "zip_NewReader w file (stat_Size stat) = Inr files"
    and "filepath_Ext (stat_Name stat) = androidExt"
    and "\<forall>g\<in>set files. zip_Name g \<noteq> ''AndroidManifest.xml''"
  shows "NewAppParser w name = Panic"
proof -
  have "xmlFile (scan files) = None"
    using assms(5) by (simp add: scan_no_match classify_IsXmlFile_iff)
  then have "parseApkFile w (xmlFile (scan files)) = Inl (Error ''AndroidManifest.xml is not found'')"
    by (simp add: parseApkFile_def)
  then have "NewAppParser_apk w name stat (scan files) = Panic"
    by (rule NewAppParser_apk_nil_info)
  then show ?thesis
    using assms(1-4) by (simp add: NewAppParser_def)
qed

text \<open>
  Claim C1. An \<^verbatim>\<open>.apk\<close> whose archive has no entry named \<^verbatim>\<open>AndroidManifest.xml\<close>
  should make \<open>NewAppParser\<close> return the manifest-not-found error. The code computes
  that error in \<open>parseApkFile\<close>, overwrites it, and dereferences the nil \<^verbatim>\<open>info\<close>:
  on the sample archive \<^verbatim>\<open>bare.apk\<close>, whose only entry is \<^verbatim>\<open>resources.arsc\<close>,
  the call panics and returns nothing.
\<close>

theorem C1_missing_manifest_panics:
  "xmlFile (scan [demo_resources]) = None \<and>
   parseApkFile demo_world None = Inl (Error ''AndroidManifest.xml is not found'') \<and>
   NewAppParser demo_world ''bare.apk'' = Panic"
  by (simp add: parser_simps demo_simps scan_simps)

section \<open>Several entries for one pattern\<close>

text \<open>
  Claim C2, as stated: of several entries matching one pattern the earliest is selected.
  It fails on archives with two manifest entries, two plist entries and two icon
  entries: the scanner does not keep the first one.
\<close>

theorem C2_earliest_not_selected:
  "classify (zip_Name stale_manifest) = IsXmlFile \<and>
   classify (zip_Name demo_manifest) = IsXmlFile \<and>
   xmlFile (scan [stale_manifest, demo_resources, demo_manifest]) \<noteq> Some stale_manifest \<and>
   classify (zip_Name demo_plist) = IsPlistFile \<and>
   classify (zip_Name helper_plist) = IsPlistFile \<and>
   plistFile (scan [demo_plist, helper_plist]) \<noteq> Some demo_plist \<and>
   classify (zip_Name demo_icon) = IsIosIconFile \<and>
   classify (zip_Name demo_icon3x) = IsIosIconFile \<and>
   iosIconFile (scan [demo_icon, demo_icon3x]) \<noteq> Some demo_icon"
  by (simp add: scan_simps demo_files)

text \<open>
  Claim C2, amended: every assignment in the loop overwrites the previous one, so for
  each of the three patterns the scanner selects the latest entry in archive order that
  the \<^verbatim>\<open>switch\<close> puts under that pattern, and ignores all earlier ones.
\<close>

theorem C2_latest_match_wins:
  assumes "\<forall>g\<in>set post. classify (zip_Name g) \<noteq> classify (zip_Name f)"
  shows "(classify (zip_Name f) = IsXmlFile \<longrightarrow> xmlFile (scan (pre @ f # post)) = Some f) \<and>
         (classify (zip_Name f) = IsPlistFile \<longrightarrow> plistFile (scan (pre @ f # post)) = Some f) \<and>
         (classify (zip_Name f) = IsIosIconFile \<longrightarrow>
            iosIconFile (scan (pre @ f # post)) = Some f)"
  using assms scan_last_xmlFile [of f post pre] scan_last_plistFile [of f post pre]
    scan_last_iosIconFile [of f post pre]
  by auto

theorem C2_latest_match_wins_witness:
  "classify (zip_Name demo_resources) \<noteq> classify (zip_Name demo_manifest) \<and>
   classify (zip_Name demo_manifest) = IsXmlFile \<and>
   classify (zip_Name stale_manifest) = IsXmlFile \<and>
   xmlFile (scan ([stale_manifest] @ demo_manifest # [demo_resources])) = Some demo_manifest"
proof -
  have h: "\<forall>g\<in>set [demo_resources]. classify (zip_Name g) \<noteq> classify (zip_Name demo_manifest)"
    by (simp add: scan_simps demo_files)
  have k: "classify (zip_Name demo_manifest) = IsXmlFile"
    by (simp add: scan_simps demo_files)
  have s: "classify (zip_Name stale_manifest) = IsXmlFile"
    by (simp add: scan_simps demo_files)
  from C2_latest_match_wins [OF h, of "[stale_manifest]"] k
  have "xmlFile (scan ([stale_manifest] @ demo_manifest # [demo_resources])) = Some demo_manifest"
    by blast
  with h k s show ?thesis by simp
qed

section \<open>Dispatch on the extension\<close>

text \<open>
  Claim C5, as stated: every file whose extension is neither \<^verbatim>\<open>.apk\<close> nor
  \<^verbatim>\<open>.ipa\<close> fails with the unknown-platform error. The archive is read before the
  extension is looked at: \<^verbatim>\<open>notes.txt\<close>, which is no zip archive, fails with the
  error of reading the archive.
\<close>

theorem C5_other_extension_not_a_zip:
  "filepath_Ext ''notes.txt'' = ''.txt'' \<and>
   NewAppParser demo_world ''notes.txt'' =
     Return None (Some (Error ''failed reading zip file: zip: not a valid zip file''))"
  by (simp add: parser_simps demo_simps)

text \<open>
  Claim C5, amended: for every file that can be opened, whose \<^verbatim>\<open>Stat\<close> succeeds and
  that reads as a zip archive, and whose name's extension is neither \<^verbatim>\<open>.apk\<close> nor
  \<^verbatim>\<open>.ipa\<close>, the call returns the unknown-platform error and a nil record.
\<close>

theorem C5_unknown_platform:
  assumes "os_Open w name = Inr file" and "file_Stat file = Inr stat"
    and "zip_NewReader w file (stat_Size stat) = Inr files"
    and "filepath_Ext (stat_Name stat) \<noteq> androidExt"
    and "filepath_Ext (stat_Name stat) \<noteq> iosExt"
  shows "NewAppParser w name = Return None (Some (Error ''unknown platform''))"
  using assms by (simp add: NewAppParser_def)

theorem C5_unknown_platform_witness:
  "os_Open demo_world ''bundle.zip'' =
     Inr \<lparr>file_Stat = Inr \<lparr>stat_Name = ''bundle.zip'', stat_Size = 300\<rparr>, file_data = [6]\<rparr> \<and>
   filepath_Ext ''bundle.zip'' = ''.zip'' \<and>
   NewAppParser demo_world ''bundle.zip'' = Return None (Some (Error ''unknown platform''))"
proof -
  let ?stat = "\<lparr>stat_Name = ''bundle.zip'', stat_Size = 300\<rparr>"
  let ?file = "\<lparr>file_Stat = Inr ?stat, file_data = [6]\<rparr>"
  have a: "os_Open demo_world ''bundle.zip'' = Inr ?file"
    by (simp add: demo_simps)
  have b: "file_Stat ?file = Inr ?stat" by simp
  have c: "zip_NewReader demo_world ?file (stat_Size ?stat) = Inr [demo_resources]"
    by (simp add: demo_simps)
  have e: "filepath_Ext ''bundle.zip'' = ''.zip''" by (simp add: filepath_Ext_def)
  have d1: "filepath_Ext (stat_Name ?stat) \<noteq> androidExt"
    by (simp add: filepath_Ext_def androidExt_def)
  have d2: "filepath_Ext (stat_Name ?stat) \<noteq> iosExt"
    by (simp add: filepath_Ext_def iosExt_def)
  from C5_unknown_platform [OF a b c d1 d2] a e show ?thesis by simp
qed

section \<open>How the scanner classifies a name\<close>

text \<open>
  Claim C6, as stated: an entry is the plist entry exactly when its whole name is
  \<^verbatim>\<open>Payload/<segment>/Info.plist\<close>, and the icon entry exactly when its name contains
  \<^verbatim>\<open>AppIcon60x60\<close>. The expression has no anchors: a name that does not start with
  \<^verbatim>\<open>Payload/\<close> and a name that does not end with \<^verbatim>\<open>Info.plist\<close> are plist
  entries. The plist case comes first in the \<^verbatim>\<open>switch\<close>: a name that contains the
  icon fragment and matches the expression is no icon entry.
\<close>

theorem C6_unanchored_and_ordered:
  "\<not> strings_HasPrefix ''backup/Payload/Demo.app/Info.plist'' ''Payload/'' \<and>
   classify ''backup/Payload/Demo.app/Info.plist'' = IsPlistFile \<and>
   classify ''Payload/Demo.app/Info.plist.orig'' = IsPlistFile \<and>
   strings_Contains ''Payload/AppIcon60x60.app/Info.plist'' ''AppIcon60x60'' \<and>
   classify ''Payload/AppIcon60x60.app/Info.plist'' \<noteq> IsIosIconFile"
  by (simp add: scan_simps)

text \<open>
  Claim C6, amended: the scanner classifies an entry as the iOS plist entry exactly when
  its name contains, at any position, \<^verbatim>\<open>Payload/\<close>, one non-empty segment without
  \<^verbatim>\<open>/\<close>, and \<^verbatim>\<open>/Info.plist\<close>; and as the iOS icon entry exactly when its name
  contains \<^verbatim>\<open>AppIcon60x60\<close> and is not classified as the plist entry.
\<close>

theorem C6_classify:
  "(classify n = IsPlistFile \<longleftrightarrow>
      (\<exists>pre seg post. n = pre @ ''Payload/'' @ seg @ ''/Info.plist'' @ post \<and> seg \<noteq> [] \<and>
                      CHR ''/'' \<notin> set seg)) \<and>
   (classify n = IsIosIconFile \<longleftrightarrow>
      (\<exists>pre post. n = pre @ ''AppIcon60x60'' @ post) \<and> classify n \<noteq> IsPlistFile)"
  unfolding classify_IsIosIconFile_iff classify_IsPlistFile_iff
  by (simp only: reInfoPlist_MatchString_iff strings_Contains_iff)

section \<open>The recoverable image-data condition\<close>

lemma parseIpaIcon_ErrImageData:
  assumes "zip_Open iconFile = Inr rc"
    and "iospng_PngRevertOptimization w rc = (buf, Some ErrImageData)"
  shows "parseIpaIcon w (Some iconFile) =
           Inr (case png_Decode w buf of Inl err \<Rightarrow> None | Inr img \<Rightarrow> Some img)"
  using assms by (simp add: parseIpaIcon_def split: sum.splits)

lemma NewAppParser_ipa_eq:
  assumes "os_Open w name = Inr file" and "file_Stat file = Inr stat"
    and "zip_NewReader w file (stat_Size stat) = Inr files"
    and "filepath_Ext (stat_Name stat) = iosExt"
  shows "NewAppParser w name = NewAppParser_ipa w stat (scan files)"
  using assms by (simp add: NewAppParser_def iosExt_def androidExt_def)

lemma NewAppParser_apk_eq:
  assumes "os_Open w name = Inr file" and "file_Stat file = Inr stat"
    and "zip_NewReader w file (stat_Size stat) = Inr files"
    and "filepath_Ext (stat_Name stat) = androidExt"
  shows "NewAppParser w name = NewAppParser_apk w name stat (scan files)"
  using assms by (simp add: NewAppParser_def)

text \<open>
  Claim C3, as stated: when the reversal reports the image-data condition, a failure of
  the PNG decode of the partially reverted buffer is fatal. On \<^verbatim>\<open>odd.ipa\<close> the
  reversal reports \<^verbatim>\<open>ErrImageData\<close>, the buffer it leaves is no PNG, and the call
  returns a record with a nil icon and a nil error.
\<close>

theorem C3_decode_failure_not_fatal:
  "iospng_PngRevertOptimization demo_world ([137, 9], None) = ([137, 0], Some ErrImageData) \<and>
   png_Decode demo_world [137, 0] = Inl (Error ''png: invalid format: not a PNG file'') \<and>
   NewAppParser demo_world ''odd.ipa'' =
     Return (Some \<lparr>Name = ''Example'', BundleId = ''com.example.app'', Version = ''1.2.3'',
                   Build = ''7'', Icon = None, Size = 8000\<rparr>) None"
  by (simp add: parser_simps demo_simps scan_simps)

text \<open>
  Claim C3, amended: for every \<^verbatim>\<open>.ipa\<close> whose plist step succeeds and whose icon
  entry makes the reversal report the image-data condition, the pipeline decodes the
  partially reverted buffer as a PNG and the call succeeds with a nil error: the icon of
  the record is the decoded image when the decode succeeds, and nil when it fails.
\<close>

theorem C3_image_data_condition:
  assumes "os_Open w name = Inr file" and "file_Stat file = Inr stat"
    and "zip_NewReader w file (stat_Size stat) = Inr files"
    and "filepath_Ext (stat_Name stat) = iosExt"
    and "parseIpaFile w (plistFile (scan files)) = Inr info"
    and "iosIconFile (scan files) = Some iconFile"
    and "zip_Open iconFile = Inr rc"
    and "iospng_PngRevertOptimization w rc = (buf, Some ErrImageData)"
  shows "NewAppParser w name =
           Return (Some (info\<lparr>Icon := (case png_Decode w buf of
                                          Inl err \<Rightarrow> None
                                        | Inr img \<Rightarrow> Some img),
                              Size := stat_Size stat\<rparr>)) None"
proof -
  have "parseIpaIcon w (iosIconFile (scan files)) =
          Inr (case png_Decode w buf of Inl err \<Rightarrow> None | Inr img \<Rightarrow> Some img)"
    using assms(6-8) by (simp add: parseIpaIcon_ErrImageData)
  then have "NewAppParser_ipa w stat (scan files) =
           Return (Some (info\<lparr>Icon := (case png_Decode w buf of
                                          Inl err \<Rightarrow> None
                                        | Inr img \<Rightarrow> Some img),
                              Size := stat_Size stat\<rparr>)) None"
    using assms(5) by (simp add: NewAppParser_ipa_def)
  then show ?thesis
    using NewAppParser_ipa_eq [OF assms(1-4)] by simp
qed

theorem C3_image_data_condition_witness:
  "iospng_PngRevertOptimization demo_world ([137, 5], None) = ([137, 80], Some ErrImageData) \<and>
   png_Decode demo_world [137, 80] = Inr (Image [6, 0, 6, 0]) \<and>
   NewAppParser demo_world ''quirk.ipa'' =
     Return (Some \<lparr>Name = ''Example'', BundleId = ''com.example.app'', Version = ''1.2.3'',
                   Build = ''7'', Icon = Some (Image [6, 0, 6, 0]), Size = 8100\<rparr>) None"
proof -
  let ?stat = "\<lparr>stat_Name = ''quirk.ipa'', stat_Size = 8100\<rparr>"
  let ?file = "\<lparr>file_Stat = Inr ?stat, file_data = [8]\<rparr>"
  let ?info = "\<lparr>Name = ''Example'', BundleId = ''com.example.app'', Version = ''1.2.3'',
                Build = ''7'', Icon = None, Size = 0\<rparr>"
  have a: "os_Open demo_world ''quirk.ipa'' = Inr ?file"
    by (simp add: demo_simps)
  have b: "file_Stat ?file = Inr ?stat" by simp
  have c: "zip_NewReader demo_world ?file (stat_Size ?stat) = Inr [demo_plist, quirk_icon]"
    by (simp add: demo_simps)
  have d: "filepath_Ext (stat_Name ?stat) = iosExt"
    by (simp add: filepath_Ext_def iosExt_def)
  have e: "parseIpaFile demo_world (plistFile (scan [demo_plist, quirk_icon])) = Inr ?info"
    by (simp add: parser_simps demo_simps scan_simps)
  have f: "iosIconFile (scan [demo_plist, quirk_icon]) = Some quirk_icon"
    by (simp add: demo_files scan_simps)
  have g: "zip_Open quirk_icon = Inr ([137, 5], None)"
    by (simp add: demo_files)
  have h: "iospng_PngRevertOptimization demo_world ([137, 5], None) =
             ([137, 80], Some ErrImageData)"
    by (simp add: demo_simps)
  have i: "png_Decode demo_world [137, 80] = Inr (Image [6, 0, 6, 0])"
    by (simp add: demo_simps)
  from C3_image_data_condition [OF a b c d e f g h] h i show ?thesis by simp
qed

section \<open>A failing step on the Android path\<close>

text \<open>
  Claim C4. When a fatal step fails, the call should return an error and no record. The
  iOS branch does so; the Android branch returns \<^verbatim>\<open>info, err\<close> without looking at
  \<^verbatim>\<open>err\<close>. On \<^verbatim>\<open>noicon.apk\<close>, whose resource table has no icon, the call returns
  the icon-not-found error together with a record whose name and icon are empty.
\<close>

theorem C4_record_alongside_error:
  "parseApkIconAndLabel demo_world ''noicon.apk'' = (None, [], Some (Error ''Icon is not found'')) \<and>
   NewAppParser demo_world ''noicon.apk'' =
     Return (Some \<lparr>Name = [], BundleId = ''com.example.app'', Version = ''1.2.3'',
                   Build = ''7'', Icon = None, Size = 2048\<rparr>)
            (Some (Error ''Icon is not found''))"
  by (simp add: parser_simps demo_simps scan_simps)

section \<open>A well-formed Android package\<close>

text \<open>
  Claim C7. For every \<^verbatim>\<open>.apk\<close> whose manifest entry (the one the scanner selects)
  decodes with the attributes \<^verbatim>\<open>package\<close>, \<^verbatim>\<open>versionName\<close> and
  \<^verbatim>\<open>versionCode\<close>, and whose resource table yields an icon at density 720 and a
  label, the call returns a nil error and the record with the label as name, the three
  attributes as bundle id, version and build, that icon, and the size \<^verbatim>\<open>Stat\<close>
  reported for the file.
\<close>

theorem C7_well_formed_apk:
  assumes "os_Open w name = Inr file" and "file_Stat file = Inr stat"
    and "zip_NewReader w file (stat_Size stat) = Inr (pre @ xf # post)"
    and "filepath_Ext (stat_Name stat) = androidExt"
    and "zip_Name xf = ''AndroidManifest.xml''"
    and "\<forall>g\<in>set post. zip_Name g \<noteq> ''AndroidManifest.xml''"
    and "zip_Open xf = Inr (buf, None)"
    and "androidbinary_NewXMLFile w buf = Inr xmlContent"
    and "xml_Decode w xmlContent = Inr attrs"
    and "attrs ''package'' = Some package"
    and "attrs ''versionName'' = Some versionName"
    and "attrs ''versionCode'' = Some versionCode"
    and "apk_OpenFile w name = Inr pkg"
    and "fst (pkg_Icon pkg \<lparr>Density = 720\<rparr>) = Some icon"
    and "fst (pkg_Label pkg None) = label"
  shows "NewAppParser w name =
           Return (Some \<lparr>Name = label, BundleId = package, Version = versionName,
                         Build = versionCode, Icon = Some icon, Size = stat_Size stat\<rparr>) None"
proof -
  have sel: "xmlFile (scan (pre @ xf # post)) = Some xf"
    using assms(5,6) by (intro scan_last_xmlFile) (simp_all add: classify_IsXmlFile_iff)
  have "parseAndroidManifest w xf =
          Inr \<lparr>Package = package, VersionName = versionName, VersionCode = versionCode\<rparr>"
    using assms(7-12) by (simp add: parseAndroidManifest_def attr_def)
  then have info: "parseApkFile w (xmlFile (scan (pre @ xf # post))) =
          Inr \<lparr>Name = [], BundleId = package, Version = versionName, Build = versionCode,
               Icon = None, Size = 0\<rparr>"
    using sel by (simp add: parseApkFile_def new_AppInfo_def)
  have res: "parseApkIconAndLabel w name = (Some icon, label, None)"
    using assms(13-15) by (simp add: parseApkIconAndLabel_def)
  have "NewAppParser_apk w name stat (scan (pre @ xf # post)) =
           Return (Some \<lparr>Name = label, BundleId = package, Version = versionName,
                         Build = versionCode, Icon = Some icon, Size = stat_Size stat\<rparr>) None"
    unfolding NewAppParser_apk_def info res by simp
  then show ?thesis
    using NewAppParser_apk_eq [OF assms(1-4)] by simp
qed

theorem C7_well_formed_apk_witness:
  "zip_NewReader demo_world \<lparr>file_Stat = Inr \<lparr>stat_Name = ''demo.apk'', stat_Size = 4096\<rparr>,
                             file_data = [1]\<rparr> 4096 =
     Inr [stale_manifest, demo_resources, demo_manifest] \<and>
   NewAppParser demo_world ''demo.apk'' =
     Return (Some \<lparr>Name = ''Example'', BundleId = ''com.example.app'', Version = ''1.2.3'',
                   Build = ''7'', Icon = Some (Image [7, 2, 0]), Size = 4096\<rparr>) None"
proof -
  let ?stat = "\<lparr>stat_Name = ''demo.apk'', stat_Size = 4096\<rparr>"
  let ?file = "\<lparr>file_Stat = Inr ?stat, file_data = [1]\<rparr>"
  let ?attrs = "[''package'' \<mapsto> ''com.example.app'', ''versionName'' \<mapsto> ''1.2.3'',
                 ''versionCode'' \<mapsto> ''7'']"
  have a: "os_Open demo_world ''demo.apk'' = Inr ?file"
    by (simp add: demo_simps)
  have b: "file_Stat ?file = Inr ?stat" by simp
  have c: "zip_NewReader demo_world ?file (stat_Size ?stat) =
             Inr ([stale_manifest, demo_resources] @ demo_manifest # [])"
    by (simp add: demo_simps)
  have d: "filepath_Ext (stat_Name ?stat) = androidExt"
    by (simp add: filepath_Ext_def androidExt_def)
  have e: "zip_Name demo_manifest = ''AndroidManifest.xml''"
    by (simp add: demo_files)
  have f: "\<forall>g\<in>set []. zip_Name g \<noteq> ''AndroidManifest.xml''" by simp
  have g: "zip_Open demo_manifest = Inr ([3, 0, 8, 0], None)"
    by (simp add: demo_files)
  have h: "androidbinary_NewXMLFile demo_world [3, 0, 8, 0] = Inr [60, 109]"
    by (simp add: demo_simps)
  have i: "xml_Decode demo_world [60, 109] = Inr ?attrs"
    by (simp add: demo_simps)
  have j: "?attrs ''package'' = Some ''com.example.app''" by simp
  have k: "?attrs ''versionName'' = Some ''1.2.3''" by simp
  have l: "?attrs ''versionCode'' = Some ''7''" by simp
  have m: "apk_OpenFile demo_world ''demo.apk'' = Inr (demo_pkg True)"
    by (simp add: demo_simps)
  have n: "fst (pkg_Icon (demo_pkg True) \<lparr>Density = 720\<rparr>) = Some (Image [7, 2, 0])"
    by (simp add: demo_simps)
  have o: "fst (pkg_Label (demo_pkg True) None) = ''Example''"
    by (simp add: demo_simps)
  from C7_well_formed_apk [OF a b c d e f g h i j k l m n o] c show ?thesis by simp
qed

section \<open>The fields of an iOS record\<close>

text \<open>
  Claim C8. For every \<^verbatim>\<open>.ipa\<close> whose plist entry (the one the scanner selects)
  decodes, the record has as name \<^verbatim>\<open>CFBundleDisplayName\<close> when that is non-empty and
  \<^verbatim>\<open>CFBundleName\<close> otherwise, and as bundle id, version and build the values of
  \<^verbatim>\<open>CFBundleIdentifier\<close>, \<^verbatim>\<open>CFBundleShortVersionString\<close> and
  \<^verbatim>\<open>CFBundleVersion\<close>, each the empty string when absent (\<open>attr\<close>). The call
  returns that record, with icon and size, whenever the icon step returns no error, and
  no record otherwise.
\<close>

theorem C8_ipa_fields:
  assumes "os_Open w name = Inr file" and "file_Stat file = Inr stat"
    and "zip_NewReader w file (stat_Size stat) = Inr (pre @ pf # post)"
    and "filepath_Ext (stat_Name stat) = iosExt"
    and "classify (zip_Name pf) = IsPlistFile"
    and "\<forall>g\<in>set post. classify (zip_Name g) \<noteq> IsPlistFile"
    and "zip_Open pf = Inr (buf, None)"
    and "plist_Decode w buf = Inr d"
  shows "NewAppParser w name =
           (case parseIpaIcon w (iosIconFile (scan (pre @ pf # post))) of
              Inl err \<Rightarrow>
                Return None (Some (Error (''failed parsing ipa icon file: '' @ error_string err)))
            | Inr icon \<Rightarrow>
                Return (Some \<lparr>Name = (if attr d ''CFBundleDisplayName'' = []
                                      then attr d ''CFBundleName''
                                      else attr d ''CFBundleDisplayName''),
                              BundleId = attr d ''CFBundleIdentifier'',
                              Version = attr d ''CFBundleShortVersionString'',
                              Build = attr d ''CFBundleVersion'',
                              Icon = icon, Size = stat_Size stat\<rparr>) None)"
proof -
  have sel: "plistFile (scan (pre @ pf # post)) = Some pf"
    using assms(5,6) by (rule scan_last_plistFile)
  have "parseIpaFile w (Some pf) =
          Inr \<lparr>Name = (if attr d ''CFBundleDisplayName'' = []
                       then attr d ''CFBundleName''
                       else attr d ''CFBundleDisplayName''),
               BundleId = attr d ''CFBundleIdentifier'',
               Version = attr d ''CFBundleShortVersionString'',
               Build = attr d ''CFBundleVersion'',
               Icon = None, Size = 0\<rparr>"
    using assms(7,8) by (simp add: parseIpaFile_def decode_iosPlist_def new_AppInfo_def)
  then have "NewAppParser_ipa w stat (scan (pre @ pf # post)) =
           (case parseIpaIcon w (iosIconFile (scan (pre @ pf # post))) of
              Inl err \<Rightarrow>
                Return None (Some (Error (''failed parsing ipa icon file: '' @ error_string err)))
            | Inr icon \<Rightarrow>
                Return (Some \<lparr>Name = (if attr d ''CFBundleDisplayName'' = []
                                      then attr d ''CFBundleName''
                                      else attr d ''CFBundleDisplayName''),
                              BundleId = attr d ''CFBundleIdentifier'',
                              Version = attr d ''CFBundleShortVersionString'',
                              Build = attr d ''CFBundleVersion'',
                              Icon = icon, Size = stat_Size stat\<rparr>) None)"
    unfolding NewAppParser_ipa_def sel by (simp split: sum.splits)
  then show ?thesis
    using NewAppParser_ipa_eq [OF assms(1-4)] by simp
qed

theorem C8_ipa_fields_witness:
  "plist_Decode demo_world [98, 112] =
     Inr [''CFBundleName'' \<mapsto> ''Example'', ''CFBundleIdentifier'' \<mapsto> ''com.example.app'',
          ''CFBundleShortVersionString'' \<mapsto> ''1.2.3'', ''CFBundleVersion'' \<mapsto> ''7''] \<and>
   NewAppParser demo_world ''demo.ipa'' =
     Return (Some \<lparr>Name = ''Example'', BundleId = ''com.example.app'', Version = ''1.2.3'',
                   Build = ''7'', Icon = Some (Image [6, 0, 6, 0]), Size = 8192\<rparr>) None"
proof -
  let ?stat = "\<lparr>stat_Name = ''demo.ipa'', stat_Size = 8192\<rparr>"
  let ?file = "\<lparr>file_Stat = Inr ?stat, file_data = [4]\<rparr>"
  let ?d = "[''CFBundleName'' \<mapsto> ''Example'', ''CFBundleIdentifier'' \<mapsto> ''com.example.app'',
             ''CFBundleShortVersionString'' \<mapsto> ''1.2.3'', ''CFBundleVersion'' \<mapsto> ''7'']"
  have a: "os_Open demo_world ''demo.ipa'' = Inr ?file"
    by (simp add: demo_simps)
  have b: "file_Stat ?file = Inr ?stat" by simp
  have c: "zip_NewReader demo_world ?file (stat_Size ?stat) = Inr ([] @ demo_plist # [demo_icon])"
    by (simp add: demo_simps)
  have d: "filepath_Ext (stat_Name ?stat) = iosExt"
    by (simp add: filepath_Ext_def iosExt_def)
  have e: "classify (zip_Name demo_plist) = IsPlistFile"
    by (simp add: demo_files scan_simps)
  have f: "\<forall>g\<in>set [demo_icon]. classify (zip_Name g) \<noteq> IsPlistFile"
    by (simp add: demo_files scan_simps)
  have g: "zip_Open demo_plist = Inr ([98, 112], None)"
    by (simp add: demo_files)
  have h: "plist_Decode demo_world [98, 112] = Inr ?d"
    by (simp add: demo_simps)
  have i: "parseIpaIcon demo_world (iosIconFile (scan ([] @ demo_plist # [demo_icon]))) =
             Inr (Some (Image [6, 0, 6, 0]))"
    by (simp add: parseIpaIcon_def demo_simps scan_simps)
  from C8_ipa_fields [OF a b c d e f g h] h i show ?thesis
    by (simp add: attr_def)
qed

section \<open>The size field\<close>

lemma NewAppParser_apk_Size:
  "NewAppParser_apk w name stat s = Return (Some info) err \<Longrightarrow> Size info = stat_Size stat"
  by (auto simp: NewAppParser_apk_def split: sum.splits prod.splits)

lemma NewAppParser_ipa_Size:
  "NewAppParser_ipa w stat s = Return (Some info) err \<Longrightarrow> Size info = stat_Size stat"
  by (auto simp: NewAppParser_ipa_def split: sum.splits)

text \<open>
  Claim C9. Whenever the call returns a record, on either path, the file was opened,
  \<^verbatim>\<open>Stat\<close> succeeded, and the record's size is the byte length \<^verbatim>\<open>Stat\<close> reported
  for the file; nothing about the entries of the archive enters it.
\<close>

theorem C9_size_is_file_length:
  assumes "NewAppParser w name = Return (Some info) err"
  shows "\<exists>file stat. os_Open w name = Inr file \<and> file_Stat file = Inr stat \<and>
           Size info = stat_Size stat"
proof (cases "os_Open w name")
  case (Inl e)
  with assms show ?thesis by (simp add: NewAppParser_def)
next
  case (Inr fl)
  note opened = this
  show ?thesis
  proof (cases "file_Stat fl")
    case (Inl e)
    with assms opened show ?thesis by (simp add: NewAppParser_def)
  next
    case (Inr stat)
    note statted = this
    show ?thesis
    proof (cases "zip_NewReader w fl (stat_Size stat)")
      case (Inl e)
      with assms opened statted show ?thesis by (simp add: NewAppParser_def)
    next
      case (Inr files)
      with assms opened statted have "Size info = stat_Size stat"
        by (auto simp: NewAppParser_def Let_def split: if_splits
            dest: NewAppParser_apk_Size NewAppParser_ipa_Size)
      with opened statted show ?thesis by simp
    qed
  qed
qed

theorem C9_size_is_file_length_witness:
  "NewAppParser demo_world ''demo.apk'' =
     Return (Some \<lparr>Name = ''Example'', BundleId = ''com.example.app'', Version = ''1.2.3'',
                   Build = ''7'', Icon = Some (Image [7, 2, 0]), Size = 4096\<rparr>) None \<and>
   (\<exists>file stat. os_Open demo_world ''demo.apk'' = Inr file \<and> file_Stat file = Inr stat \<and>
      stat_Size stat = 4096)"
proof -
  have r: "NewAppParser demo_world ''demo.apk'' =
     Return (Some \<lparr>Name = ''Example'', BundleId = ''com.example.app'', Version = ''1.2.3'',
                   Build = ''7'', Icon = Some (Image [7, 2, 0]), Size = 4096\<rparr>) None"
    by (simp add: parser_simps demo_simps scan_simps)
  from C9_size_is_file_length [OF r] r show ?thesis by simp
qed

section \<open>Success with a nil icon\<close>

text \<open>
  Claim C10. There is an \<^verbatim>\<open>.ipa\<close> input on which the call returns a record and a nil
  error although the record's icon is nil: the reversal reports \<^verbatim>\<open>ErrImageData\<close>,
  the partially reverted bytes fail to decode as a PNG, and the decode error is dropped.
\<close>

theorem C10_success_with_nil_icon:
  "\<exists>w name file stat files iconFile rc buf err info.
     os_Open w name = Inr file \<and> file_Stat file = Inr stat \<and>
     zip_NewReader w file (stat_Size stat) = Inr files \<and>
     filepath_Ext (stat_Name stat) = iosExt \<and>
     iosIconFile (scan files) = Some iconFile \<and> zip_Open iconFile = Inr rc \<and>
     iospng_PngRevertOptimization w rc = (buf, Some ErrImageData) \<and>
     png_Decode w buf = Inl err \<and>
     NewAppParser w name = Return (Some info) None \<and> Icon info = None"
proof -
  let ?stat = "\<lparr>stat_Name = ''odd.ipa'', stat_Size = 8000\<rparr>"
  let ?file = "\<lparr>file_Stat = Inr ?stat, file_data = [5]\<rparr>"
  let ?info = "\<lparr>Name = ''Example'', BundleId = ''com.example.app'', Version = ''1.2.3'',
                Build = ''7'', Icon = None, Size = 8000\<rparr>"
  have a: "os_Open demo_world ''odd.ipa'' = Inr ?file"
    by (simp add: demo_simps)
  have b: "file_Stat ?file = Inr ?stat" by simp
  have c: "zip_NewReader demo_world ?file (stat_Size ?stat) = Inr [demo_plist, odd_icon]"
    by (simp add: demo_simps)
  have d: "filepath_Ext (stat_Name ?stat) = iosExt"
    by (simp add: filepath_Ext_def iosExt_def)
  have f: "iosIconFile (scan [demo_plist, odd_icon]) = Some odd_icon"
    by (simp add: demo_files scan_simps)
  have g: "zip_Open odd_icon = Inr ([137, 9], None)"
    by (simp add: demo_files)
  have h: "iospng_PngRevertOptimization demo_world ([137, 9], None) =
             ([137, 0], Some ErrImageData)"
    by (simp add: demo_simps)
  have i: "png_Decode demo_world [137, 0] = Inl (Error ''png: invalid format: not a PNG file'')"
    by (simp add: demo_simps)
  have r: "NewAppParser demo_world ''odd.ipa'' = Return (Some ?info) None"
    by (simp add: parser_simps demo_simps scan_simps)
  have n: "Icon ?info = None" by simp
  from a b c d f g h i r n show ?thesis by blast
qed

end
